theory Spec2Isabelle
  imports Main "HOL-Library.Word"
begin

section \<open>The Windows bridge builder of the vpc-shared-eni plugin\<close>

text \<open>
  A shallow embedding of \<^verbatim>\<open>plugins/vpc-shared-eni/network/bridge_windows.go\<close>.
  The builder talks to the Host Networking Service (HNS) through the hcsshim and hcn
  packages. Those calls are the only effects of the code, so the model threads a
  \<^emph>\<open>world\<close> through every function: the state of the service, of which nothing is
  assumed, and the chronological list of the calls issued so far, each with the reply it got.
  Go's \<^verbatim>\<open>error\<close> results are values of the datatype \<open>error\<close>, a run-time panic
  (an index out of range) is a result of its own, and log statements are left out.
\<close>

subsection \<open>Go values\<close>

type_synonym byte = "8 word"

text \<open>\<^verbatim>\<open>net.IPNet\<close>: an address and a mask, both byte slices.\<close>

record IPNet =
  IP :: "byte list"
  Mask :: "byte list"

text \<open>\<^verbatim>\<open>hcsshim.HNSVersion\<close> and \<^verbatim>\<open>hcsshim.HNSGlobals\<close>.\<close>

record HNSVersion =
  Major :: int
  Minor :: int

record HNSGlobals =
  Version :: HNSVersion

text \<open>
  Every error value the code can return. The first two are what the service hands back:
  the sentinel \<^verbatim>\<open>hcsshim.ErrComputeSystemDoesNotExist\<close>, which \<^verbatim>\<open>DeleteEndpoint\<close>
  compares against, and any other error, by its message. \<open>EncodeError\<close> is an error of
  \<^verbatim>\<open>json.Marshal\<close>. The others are the \<^verbatim>\<open>fmt.Errorf\<close> values of this file, one
  constructor per call site, carrying the arguments of the format string:
  \<^item> \<open>ErrBridgeNotInHostNS\<close>: "Bridge must be in host network namespace on Windows";
  \<^item> \<open>ErrSingleIPv4Only\<close>: "Only a single IPv4 address per endpoint is supported on Windows";
  \<^item> \<open>ErrEndpointNotFound name err\<close>: "failed to find endpoint %s: %v";
  \<^item> \<open>ErrHNSTooOld min\<close>: "HNS is older than the minimum supported version %v".
\<close>

datatype error =
    ErrComputeSystemDoesNotExist
  | ServiceError string
  | EncodeError string
  | ErrBridgeNotInHostNS
  | ErrSingleIPv4Only
  | ErrEndpointNotFound string error
  | ErrHNSTooOld HNSVersion

text \<open>A run-time panic: \<open>IndexOutOfRange i n\<close> is index \<open>i\<close> used on a slice of length \<open>n\<close>.\<close>

datatype runtime_error = IndexOutOfRange nat nat

text \<open>
  What a function declared \<^verbatim>\<open>func ... error\<close> does: it returns \<^verbatim>\<open>nil\<close>
  (\<open>Return None\<close>), returns an error, or panics.
\<close>

datatype goresult = Return "error option" | Panic runtime_error

text \<open>\<open>xs[i]\<close> on a slice: Go panics when the index is out of range.\<close>

definition index :: "'a list \<Rightarrow> nat \<Rightarrow> runtime_error + 'a" where
  "index xs i = (if i < length xs then Inr (xs ! i) else Inl (IndexOutOfRange i (length xs)))"

text \<open>\<^verbatim>\<open>strings.HasPrefix\<close>, \<^verbatim>\<open>strings.TrimPrefix\<close> and \<^verbatim>\<open>strings.Join\<close>.\<close>

definition HasPrefix :: "string \<Rightarrow> string \<Rightarrow> bool" where
  "HasPrefix s pre = (length pre \<le> length s \<and> take (length pre) s = pre)"

definition TrimPrefix :: "string \<Rightarrow> string \<Rightarrow> string" where
  "TrimPrefix s pre = (if HasPrefix s pre then drop (length pre) s else s)"

fun Join :: "string list \<Rightarrow> string \<Rightarrow> string" where
  "Join [] sep = []"
| "Join [a] sep = a"
| "Join (a # b # rest) sep = a @ sep @ Join (b # rest) sep"

text \<open>
  \<^verbatim>\<open>net.IP.To4\<close>: a 4-byte address is returned as it is, a 16-byte address that is an
  IPv4-mapped IPv6 address (ten zero bytes, then \<open>0xff 0xff\<close>) yields its last four
  bytes, anything else yields \<^verbatim>\<open>nil\<close>.
\<close>

fun isZeros :: "byte list \<Rightarrow> bool" where
  "isZeros [] = True"
| "isZeros (b # bs) = (if b \<noteq> 0 then False else isZeros bs)"

definition To4 :: "byte list \<Rightarrow> byte list option" where
  "To4 ip =
     (if length ip = 4 then Some ip
      else if length ip = 16 \<and> isZeros (take 10 ip) \<and> ip ! 10 = 0xff \<and> ip ! 11 = 0xff
        then Some (drop 12 ip)
      else None)"

subsection \<open>The plugin's own data: networks and endpoints\<close>

text \<open>
  \<^verbatim>\<open>eni.ENI\<close>, from another package of the repository. The builder only calls
  its getters \<^verbatim>\<open>GetLinkName\<close> and \<^verbatim>\<open>GetMACAddress\<close>, so an ENI is represented
  by the two values they return.
\<close>

record ENI =
  linkName :: string
  macAddress :: "byte list"

definition GetLinkName :: "ENI \<Rightarrow> string" where
  "GetLinkName eni = linkName eni"

definition GetMACAddress :: "ENI \<Rightarrow> byte list" where
  "GetMACAddress eni = macAddress eni"

text \<open>
  The fields of \<^verbatim>\<open>Network\<close> and \<^verbatim>\<open>Endpoint\<close> that this file reads or writes.
  \<open>VPCCIDRs\<close> is a slice that the code compares with \<^verbatim>\<open>nil\<close>: \<open>None\<close> is the
  nil slice, \<open>Some []\<close> an empty one that is not nil. The pointers \<^verbatim>\<open>nw\<close>,
  \<^verbatim>\<open>ep\<close> and \<^verbatim>\<open>nw.SharedENI\<close> are taken to be non-nil.
\<close>

record Network =
  Name :: string
  BridgeNetNSPath :: string
  SharedENI :: ENI
  ENIIPAddresses :: "IPNet list"
  GatewayIPAddress :: "byte list"
  VPCCIDRs :: "IPNet list option"
  DNSServers :: "string list"
  DNSSuffixSearchList :: "string list"
  ServiceCIDR :: string

record Endpoint =
  ContainerID :: string
  NetNSName :: string
  MACAddress :: "byte list"
  IPAddresses :: "IPNet list"

text \<open>\<^verbatim>\<open>nsType\<close>, the three constants declared with \<^verbatim>\<open>iota\<close>.\<close>

datatype nsType = infraContainerNS | appContainerNS | hcnNamespace

subsection \<open>What the builder sends to the service\<close>

text \<open>
  The two policies the builder attaches to an endpoint: \<^verbatim>\<open>hcsshim.OutboundNatPolicy\<close>
  with its exception list, and the file's own \<^verbatim>\<open>hnsRoutePolicy\<close>. The constructor
  stands for the \<^verbatim>\<open>Type\<close> field (\<^verbatim>\<open>OutboundNat\<close>, \<^verbatim>\<open>Route\<close>).
\<close>

datatype policy =
    OutboundNatPolicy (Exceptions: "string list")
  | hnsRoutePolicy (DestinationPrefix: string) (NeedEncap: bool)

text \<open>\<^verbatim>\<open>hcsshim.Subnet\<close>, \<^verbatim>\<open>hcsshim.HNSNetwork\<close> and \<^verbatim>\<open>hcsshim.HNSEndpoint\<close>,
  with the fields the builder sets or reads (prefixed \<open>N_\<close> and \<open>E_\<close>).
  An encoded policy (\<^verbatim>\<open>json.RawMessage\<close>) is represented by the policy it encodes.\<close>

record Subnet =
  AddressPrefix :: string
  GatewayAddress :: string

record HNSNetwork =
  N_Id :: string
  N_Name :: string
  N_Type :: string
  N_NetworkAdapterName :: string
  N_Subnets :: "Subnet list"

record HNSEndpoint =
  E_Id :: string
  E_Name :: string
  E_VirtualNetworkName :: string
  E_Policies :: "policy list"
  E_MacAddress :: string
  E_IPAddress :: "byte list"
  E_DNSSuffix :: string
  E_DNSServerList :: string
  E_PrefixLength :: byte

definition hnsL2Bridge :: string where
  "hnsL2Bridge = ''l2bridge''"

text \<open>
  Library functions and the one constant the file takes from outside, as parameters:
  the builder's behaviour is proved for every choice of them.
  \<^item> \<open>HNSVersion1803\<close>: the hcsshim constant that \<^verbatim>\<open>hnsMinVersion\<close> is set to;
  \<^item> \<open>HardwareAddr_String\<close>, \<open>IP_String\<close>, \<open>IPNet_String\<close>: the \<^verbatim>\<open>String\<close>
    methods of \<^verbatim>\<open>net.HardwareAddr\<close>, \<^verbatim>\<open>net.IP\<close> and \<^verbatim>\<open>net.IPNet\<close>;
  \<^item> \<open>IPMask_Size\<close>: \<^verbatim>\<open>net.IPMask.Size\<close>, of which the code keeps the first result;
  \<^item> \<open>ParseMAC\<close>: the address \<^verbatim>\<open>net.ParseMAC\<close> returns (its error is discarded
    by every caller here; the address is \<^verbatim>\<open>nil\<close>, the empty list, when parsing fails);
  \<^item> \<open>GetSubnetPrefix\<close>: \<^verbatim>\<open>vpc.GetSubnetPrefix\<close>, from another package of the repository;
  \<^item> \<open>Marshal_policy\<close>, \<open>Marshal_network\<close>, \<open>Marshal_endpoint\<close>: the error of
    \<^verbatim>\<open>json.Marshal\<close> on a value of that type, \<open>None\<close> when encoding succeeds. The
    encoded request is represented by the value itself.
\<close>

record ext =
  HNSVersion1803 :: HNSVersion
  HardwareAddr_String :: "byte list \<Rightarrow> string"
  IP_String :: "byte list \<Rightarrow> string"
  IPNet_String :: "IPNet \<Rightarrow> string"
  IPMask_Size :: "byte list \<Rightarrow> int"
  ParseMAC :: "string \<Rightarrow> byte list"
  GetSubnetPrefix :: "IPNet \<Rightarrow> IPNet"
  Marshal_policy :: "policy \<Rightarrow> error option"
  Marshal_network :: "HNSNetwork \<Rightarrow> error option"
  Marshal_endpoint :: "HNSEndpoint \<Rightarrow> error option"

definition hnsMinVersion :: "ext \<Rightarrow> HNSVersion" where
  "hnsMinVersion x = HNSVersion1803 x"

subsection \<open>The control service\<close>

text \<open>
  One constructor per function of hcsshim and hcn that the builder calls, with the
  arguments of the call. The body of a request is \<open>None\<close> for the empty string and
  \<open>Some v\<close> for the encoding of \<open>v\<close>.
\<close>

datatype call =
    CGetHNSGlobals
  | CGetHNSNetworkByName string
  | CHNSNetworkRequest string string "HNSNetwork option"
  | CGetHNSEndpointByName string
  | CHNSEndpointRequest string string "HNSEndpoint option"
  | CHotAttachEndpoint string string
  | CHotDetachEndpoint string string
  | CGetNamespaceEndpointIds string
  | CAddNamespaceEndpoint string string
  | CRemoveNamespaceEndpoint string string

datatype reply =
    Failed error
  | Done
  | GlobalsReply HNSGlobals
  | NetworkReply HNSNetwork
  | EndpointReply HNSEndpoint
  | IdsReply "string list"

type_synonym event = "call \<times> reply"

text \<open>
  The service, over a state \<open>'s\<close> of its own: each function takes its arguments and
  the state, and returns what the Go function returns and the next state.
\<close>

record 's hns =
  GetHNSGlobals :: "'s \<Rightarrow> (error + HNSGlobals) \<times> 's"
  GetHNSNetworkByName :: "string \<Rightarrow> 's \<Rightarrow> (error + HNSNetwork) \<times> 's"
  HNSNetworkRequest :: "string \<Rightarrow> string \<Rightarrow> HNSNetwork option \<Rightarrow> 's \<Rightarrow> (error + HNSNetwork) \<times> 's"
  GetHNSEndpointByName :: "string \<Rightarrow> 's \<Rightarrow> (error + HNSEndpoint) \<times> 's"
  HNSEndpointRequest :: "string \<Rightarrow> string \<Rightarrow> HNSEndpoint option \<Rightarrow> 's \<Rightarrow> (error + HNSEndpoint) \<times> 's"
  HotAttachEndpoint :: "string \<Rightarrow> string \<Rightarrow> 's \<Rightarrow> error option \<times> 's"
  HotDetachEndpoint :: "string \<Rightarrow> string \<Rightarrow> 's \<Rightarrow> error option \<times> 's"
  GetNamespaceEndpointIds :: "string \<Rightarrow> 's \<Rightarrow> (error + string list) \<times> 's"
  AddNamespaceEndpoint :: "string \<Rightarrow> string \<Rightarrow> 's \<Rightarrow> error option \<times> 's"
  RemoveNamespaceEndpoint :: "string \<Rightarrow> string \<Rightarrow> 's \<Rightarrow> error option \<times> 's"

type_synonym 's world = "'s \<times> event list"

text \<open>Issuing a call: the service answers, and the call and its reply are logged.\<close>

definition issue :: "call \<Rightarrow> ('a \<Rightarrow> reply) \<Rightarrow> ('s \<Rightarrow> (error + 'a) \<times> 's) \<Rightarrow> 's world \<Rightarrow> (error + 'a) \<times> 's world" where
  "issue c ok f w =
     (case f (fst w) of
        (Inl err, s') \<Rightarrow> (Inl err, (s', snd w @ [(c, Failed err)]))
      | (Inr v, s') \<Rightarrow> (Inr v, (s', snd w @ [(c, ok v)])))"

definition issue_err :: "call \<Rightarrow> ('s \<Rightarrow> error option \<times> 's) \<Rightarrow> 's world \<Rightarrow> error option \<times> 's world" where
  "issue_err c f w =
     (case f (fst w) of
        (Some err, s') \<Rightarrow> (Some err, (s', snd w @ [(c, Failed err)]))
      | (None, s') \<Rightarrow> (None, (s', snd w @ [(c, Done)])))"

subsection \<open>The builder\<close>

text \<open>\<^verbatim>\<open>getNamespaceIdentifier\<close> (lines 388-425).\<close>

definition containerPrefix :: string where
  "containerPrefix = ''container:''"

definition getNamespaceIdentifier :: "Endpoint \<Rightarrow> nsType \<times> string" where
  "getNamespaceIdentifier ep =
     (if NetNSName ep = ''none'' \<or> NetNSName ep = '''' then
        (infraContainerNS, ContainerID ep)
      else if HasPrefix (NetNSName ep) containerPrefix then
        (appContainerNS, TrimPrefix (NetNSName ep) containerPrefix)
      else
        (hcnNamespace, NetNSName ep))"

text \<open>\<^verbatim>\<open>checkHNSVersion\<close> (lines 428-445).\<close>

definition checkHNSVersion :: "ext \<Rightarrow> 's hns \<Rightarrow> 's world \<Rightarrow> error option \<times> 's world" where
  "checkHNSVersion x svc w =
     (case issue CGetHNSGlobals GlobalsReply (GetHNSGlobals svc) w of
        (Inl err, w1) \<Rightarrow> (Some err, w1)
      | (Inr hnsGlobals, w1) \<Rightarrow>
          (let hnsVersion = Version hnsGlobals;
               supported = (Major hnsVersion > Major (hnsMinVersion x) \<or>
                 (Major hnsVersion = Major (hnsMinVersion x) \<and>
                  Minor hnsVersion \<ge> Minor (hnsMinVersion x)))
           in if \<not> supported then (Some (ErrHNSTooOld (hnsMinVersion x)), w1)
              else (None, w1)))"

text \<open>\<^verbatim>\<open>generateHNSNetworkName\<close> and \<^verbatim>\<open>generateHNSEndpointName\<close> (lines 448-462).
  \<^verbatim>\<open>strings.Replace(s, ":", "", -1)\<close> removes every colon.\<close>

definition generateHNSNetworkName :: "ext \<Rightarrow> Network \<Rightarrow> string" where
  "generateHNSNetworkName x nw =
     (let ident = filter (\<lambda>c. c \<noteq> CHR '':'') (HardwareAddr_String x (GetMACAddress (SharedENI nw)))
      in Name nw @ ''br'' @ ident)"

definition generateHNSEndpointName :: "Endpoint \<Rightarrow> string \<Rightarrow> string" where
  "generateHNSEndpointName ep ident =
     (let ident' = (if ident = '''' then ContainerID ep else ident)
      in ''cid-'' @ ident')"

text \<open>\<^verbatim>\<open>FindOrCreateNetwork\<close> (lines 69-120).\<close>

definition FindOrCreateNetwork :: "ext \<Rightarrow> 's hns \<Rightarrow> Network \<Rightarrow> 's world \<Rightarrow> goresult \<times> 's world" where
  "FindOrCreateNetwork x svc nw w =
     (case checkHNSVersion x svc w of
        (Some err, w1) \<Rightarrow> (Return (Some err), w1)
      | (None, w1) \<Rightarrow>
          if BridgeNetNSPath nw \<noteq> '''' then (Return (Some ErrBridgeNotInHostNS), w1)
          else
            (let networkName = generateHNSNetworkName x nw in
             case issue (CGetHNSNetworkByName networkName) NetworkReply
                    (GetHNSNetworkByName svc networkName) w1 of
               (Inr found, w2) \<Rightarrow> (Return None, w2)
             | (Inl lookupErr, w2) \<Rightarrow>
                 (case index (ENIIPAddresses nw) 0 of
                    Inl p \<Rightarrow> (Panic p, w2)
                  | Inr addr \<Rightarrow>
                      (let hnsNetwork = \<lparr>
                             N_Id = '''',
                             N_Name = networkName,
                             N_Type = hnsL2Bridge,
                             N_NetworkAdapterName = GetLinkName (SharedENI nw),
                             N_Subnets = [\<lparr>
                               AddressPrefix = IPNet_String x (GetSubnetPrefix x addr),
                               GatewayAddress = IP_String x (GatewayIPAddress nw)\<rparr>]\<rparr>
                       in case Marshal_network x hnsNetwork of
                            Some err \<Rightarrow> (Return (Some err), w2)
                          | None \<Rightarrow>
                              (case issue (CHNSNetworkRequest ''POST'' '''' (Some hnsNetwork)) NetworkReply
                                      (HNSNetworkRequest svc ''POST'' '''' (Some hnsNetwork)) w2 of
                                 (Inl err, w3) \<Rightarrow> (Return (Some err), w3)
                               | (Inr hnsResponse, w3) \<Rightarrow> (Return None, w3))))))"

text \<open>\<^verbatim>\<open>DeleteNetwork\<close> (lines 123-139).\<close>

definition DeleteNetwork :: "ext \<Rightarrow> 's hns \<Rightarrow> Network \<Rightarrow> 's world \<Rightarrow> goresult \<times> 's world" where
  "DeleteNetwork x svc nw w =
     (let networkName = generateHNSNetworkName x nw in
      case issue (CGetHNSNetworkByName networkName) NetworkReply
             (GetHNSNetworkByName svc networkName) w of
        (Inl err, w1) \<Rightarrow> (Return (Some err), w1)
      | (Inr hnsNetwork, w1) \<Rightarrow>
          (case issue (CHNSNetworkRequest ''DELETE'' (N_Id hnsNetwork) None) NetworkReply
                  (HNSNetworkRequest svc ''DELETE'' (N_Id hnsNetwork) None) w1 of
             (Inl err, w2) \<Rightarrow> (Return (Some err), w2)
           | (Inr r, w2) \<Rightarrow> (Return None, w2)))"

text \<open>\<^verbatim>\<open>attachEndpointV1\<close> (lines 336-346).\<close>

definition attachEndpointV1 :: "'s hns \<Rightarrow> HNSEndpoint \<Rightarrow> string \<Rightarrow> 's world \<Rightarrow> error option \<times> 's world" where
  "attachEndpointV1 svc hnsEp containerID w =
     issue_err (CHotAttachEndpoint containerID (E_Id hnsEp))
       (HotAttachEndpoint svc containerID (E_Id hnsEp)) w"

text \<open>\<^verbatim>\<open>attachEndpointV2\<close> (lines 349-372); \<open>hasEndpointID\<close> is its loop over the
  identifiers of the endpoints already in the namespace.\<close>

fun hasEndpointID :: "string \<Rightarrow> string list \<Rightarrow> bool" where
  "hasEndpointID epId [] = False"
| "hasEndpointID epId (endpointID # rest) =
     (if epId = endpointID then True else hasEndpointID epId rest)"

definition attachEndpointV2 :: "'s hns \<Rightarrow> HNSEndpoint \<Rightarrow> string \<Rightarrow> 's world \<Rightarrow> error option \<times> 's world" where
  "attachEndpointV2 svc hnsEp netNSName w =
     (case issue (CGetNamespaceEndpointIds netNSName) IdsReply
             (GetNamespaceEndpointIds svc netNSName) w of
        (Inl err, w1) \<Rightarrow> (Some err, w1)
      | (Inr nsEndpoints, w1) \<Rightarrow>
          if hasEndpointID (E_Id hnsEp) nsEndpoints then (None, w1)
          else issue_err (CAddNamespaceEndpoint netNSName (E_Id hnsEp))
                 (AddNamespaceEndpoint svc netNSName (E_Id hnsEp)) w1)"

text \<open>\<^verbatim>\<open>addEndpointPolicy\<close> (lines 375-385).\<close>

definition addEndpointPolicy :: "ext \<Rightarrow> HNSEndpoint \<Rightarrow> policy \<Rightarrow> error + HNSEndpoint" where
  "addEndpointPolicy x hnsEp pol =
     (case Marshal_policy x pol of
        Some err \<Rightarrow> Inl err
      | None \<Rightarrow> Inr (hnsEp\<lparr>E_Policies := E_Policies hnsEp @ [pol]\<rparr>))"

text \<open>
  \<^verbatim>\<open>FindOrCreateEndpoint\<close> (lines 142-288), in the order of the source. Three parts of
  its body are definitions of their own:
  \<^item> \<open>snatExceptions\<close>, the value of the local variable of that name once lines 190-204
    have run (\<open>appendCIDRs\<close> is the loop over \<^verbatim>\<open>nw.VPCCIDRs\<close>);
  \<^item> \<open>newHNSEndpoint\<close>, lines 177-247: the endpoint to create, with its policies;
  \<^item> \<open>attachNewEndpoint\<close>, lines 266-287: attaching the endpoint the service created,
    and deleting it again when that fails.
\<close>

fun appendCIDRs :: "ext \<Rightarrow> string list \<Rightarrow> IPNet list \<Rightarrow> string list" where
  "appendCIDRs x exceptions [] = exceptions"
| "appendCIDRs x exceptions (cidr # cidrs) = appendCIDRs x (exceptions @ [IPNet_String x cidr]) cidrs"

definition snatExceptions :: "ext \<Rightarrow> Network \<Rightarrow> runtime_error + string list" where
  "snatExceptions x nw =
     (case (case VPCCIDRs nw of
              None \<Rightarrow>
                (case index (ENIIPAddresses nw) 0 of
                   Inl p \<Rightarrow> Inl p
                 | Inr addr \<Rightarrow> Inr [IPNet_String x (GetSubnetPrefix x addr)])
            | Some cidrs \<Rightarrow> Inr (appendCIDRs x [] cidrs)) of
        Inl p \<Rightarrow> Inl p
      | Inr exceptions \<Rightarrow>
          if ServiceCIDR nw \<noteq> '''' then Inr (exceptions @ [ServiceCIDR nw])
          else Inr exceptions)"

definition newHNSEndpoint :: "ext \<Rightarrow> Network \<Rightarrow> Endpoint \<Rightarrow> string \<Rightarrow> goresult + HNSEndpoint" where
  "newHNSEndpoint x nw ep endpointName =
     (case index (IPAddresses ep) 0 of
        Inl p \<Rightarrow> Inl (Panic p)
      | Inr addr \<Rightarrow>
          (let hnsEndpoint = \<lparr>
                 E_Id = '''',
                 E_Name = endpointName,
                 E_VirtualNetworkName = generateHNSNetworkName x nw,
                 E_Policies = [],
                 E_MacAddress = '''',
                 E_IPAddress = IP addr,
                 E_DNSSuffix = Join (DNSSuffixSearchList nw) '','',
                 E_DNSServerList = Join (DNSServers nw) '','',
                 E_PrefixLength = word_of_int (IPMask_Size x (Mask addr))\<rparr>
           in case snatExceptions x nw of
                Inl p \<Rightarrow> Inl (Panic p)
              | Inr exceptions \<Rightarrow>
                  (case addEndpointPolicy x hnsEndpoint (OutboundNatPolicy exceptions) of
                     Inl err \<Rightarrow> Inl (Return (Some err))
                   | Inr ep1 \<Rightarrow>
                       if ServiceCIDR nw \<noteq> '''' then
                         (case addEndpointPolicy x ep1 (hnsRoutePolicy (ServiceCIDR nw) True) of
                            Inl err \<Rightarrow> Inl (Return (Some err))
                          | Inr ep2 \<Rightarrow>
                              (case index (ENIIPAddresses nw) 0 of
                                 Inl p \<Rightarrow> Inl (Panic p)
                               | Inr host \<Rightarrow>
                                   (case addEndpointPolicy x ep2
                                           (hnsRoutePolicy (IP_String x (IP host) @ ''/32'') True) of
                                      Inl err \<Rightarrow> Inl (Return (Some err))
                                    | Inr ep3 \<Rightarrow> Inr ep3)))
                       else Inr ep1)))"

definition attachNewEndpoint ::
  "ext \<Rightarrow> 's hns \<Rightarrow> nsType \<Rightarrow> string \<Rightarrow> Endpoint \<Rightarrow> HNSEndpoint \<Rightarrow> 's world \<Rightarrow> goresult \<times> Endpoint \<times> 's world" where
  "attachNewEndpoint x svc nsType namespaceIdentifier ep hnsResponse w =
     (let (err1, w1) = (if nsType = infraContainerNS
                        then attachEndpointV1 svc hnsResponse (ContainerID ep) w
                        else (None, w));
          (err2, w2) = (if nsType = hcnNamespace
                        then attachEndpointV2 svc hnsResponse namespaceIdentifier w1
                        else (err1, w1))
      in case err2 of
           Some err \<Rightarrow>
             (case issue (CHNSEndpointRequest ''DELETE'' (E_Id hnsResponse) None) EndpointReply
                     (HNSEndpointRequest svc ''DELETE'' (E_Id hnsResponse) None) w2 of
                (delResult, w3) \<Rightarrow> (Return (Some err), ep, w3))
         | None \<Rightarrow>
             (Return None, ep\<lparr>MACAddress := ParseMAC x (E_MacAddress hnsResponse)\<rparr>, w2))"

definition FindOrCreateEndpoint ::
  "ext \<Rightarrow> 's hns \<Rightarrow> Network \<Rightarrow> Endpoint \<Rightarrow> 's world \<Rightarrow> goresult \<times> Endpoint \<times> 's world" where
  "FindOrCreateEndpoint x svc nw ep w =
     (if length (IPAddresses ep) > 1 then (Return (Some ErrSingleIPv4Only), ep, w)
      else case index (IPAddresses ep) 0 of
        Inl p \<Rightarrow> (Panic p, ep, w)
      | Inr addr \<Rightarrow>
          if To4 (IP addr) = None then (Return (Some ErrSingleIPv4Only), ep, w)
          else
            (let (nsType, namespaceIdentifier) = getNamespaceIdentifier ep;
                 endpointName = generateHNSEndpointName ep namespaceIdentifier
             in case issue (CGetHNSEndpointByName endpointName) EndpointReply
                       (GetHNSEndpointByName svc endpointName) w of
                  (Inr hnsEndpoint, w1) \<Rightarrow>
                    (let (err, w2) =
                           (if nsType = infraContainerNS \<or> nsType = hcnNamespace then (None, w1)
                            else attachEndpointV1 svc hnsEndpoint (ContainerID ep) w1)
                     in (Return err, ep\<lparr>MACAddress := ParseMAC x (E_MacAddress hnsEndpoint)\<rparr>, w2))
                | (Inl lookupErr, w1) \<Rightarrow>
                    if nsType \<noteq> infraContainerNS \<and> nsType \<noteq> hcnNamespace then
                      (Return (Some (ErrEndpointNotFound endpointName lookupErr)), ep, w1)
                    else
                      (case newHNSEndpoint x nw ep endpointName of
                         Inl stopped \<Rightarrow> (stopped, ep, w1)
                       | Inr hnsEndpoint \<Rightarrow>
                           (case Marshal_endpoint x hnsEndpoint of
                              Some err \<Rightarrow> (Return (Some err), ep, w1)
                            | None \<Rightarrow>
                                (case issue (CHNSEndpointRequest ''POST'' '''' (Some hnsEndpoint)) EndpointReply
                                        (HNSEndpointRequest svc ''POST'' '''' (Some hnsEndpoint)) w1 of
                                   (Inl err, w2) \<Rightarrow> (Return (Some err), ep, w2)
                                 | (Inr hnsResponse, w2) \<Rightarrow>
                                     attachNewEndpoint x svc nsType namespaceIdentifier ep hnsResponse w2)))))"

text \<open>\<^verbatim>\<open>DeleteEndpoint\<close> (lines 291-333); \<open>deleteHNSEndpoint\<close> is its last step,
  lines 325-332.\<close>

definition deleteHNSEndpoint :: "'s hns \<Rightarrow> HNSEndpoint \<Rightarrow> 's world \<Rightarrow> goresult \<times> 's world" where
  "deleteHNSEndpoint svc hnsEndpoint w =
     (case issue (CHNSEndpointRequest ''DELETE'' (E_Id hnsEndpoint) None) EndpointReply
             (HNSEndpointRequest svc ''DELETE'' (E_Id hnsEndpoint) None) w of
        (Inl err, w1) \<Rightarrow> (Return (Some err), w1)
      | (Inr r, w1) \<Rightarrow> (Return None, w1))"

definition DeleteEndpoint :: "'s hns \<Rightarrow> Network \<Rightarrow> Endpoint \<Rightarrow> 's world \<Rightarrow> goresult \<times> 's world" where
  "DeleteEndpoint svc nw ep w =
     (let (nsType, namespaceIdentifier) = getNamespaceIdentifier ep;
          endpointName = generateHNSEndpointName ep namespaceIdentifier
      in case issue (CGetHNSEndpointByName endpointName) EndpointReply
                (GetHNSEndpointByName svc endpointName) w of
           (Inl err, w1) \<Rightarrow> (Return (Some err), w1)
         | (Inr hnsEndpoint, w1) \<Rightarrow>
             if nsType = hcnNamespace then
               (case issue_err (CRemoveNamespaceEndpoint namespaceIdentifier (E_Id hnsEndpoint))
                       (RemoveNamespaceEndpoint svc namespaceIdentifier (E_Id hnsEndpoint)) w1 of
                  (detachErr, w2) \<Rightarrow> deleteHNSEndpoint svc hnsEndpoint w2)
             else
               (case issue_err (CHotDetachEndpoint (ContainerID ep) (E_Id hnsEndpoint))
                       (HotDetachEndpoint svc (ContainerID ep) (E_Id hnsEndpoint)) w1 of
                  (detachErr, w2) \<Rightarrow>
                    if detachErr \<noteq> None \<and> detachErr \<noteq> Some ErrComputeSystemDoesNotExist
                      then (Return detachErr, w2)
                    else if nsType = appContainerNS then (Return None, w2)
                    else deleteHNSEndpoint svc hnsEndpoint w2))"

subsection \<open>Two control services to run the builder against\<close>

text \<open>
  The theorems below hold for every service. To run the builder on concrete inputs two
  services are defined here; neither is code of the repository.

  The first, \<open>scripted\<close>, has a list of replies as its state and answers each call with
  the next one, whatever the call: a \<open>Failed\<close> reply makes the call fail with that
  error. It serves to drive the builder down a chosen path.
\<close>

definition next_reply :: "(reply \<Rightarrow> 'a option) \<Rightarrow> reply list \<Rightarrow> (error + 'a) \<times> reply list" where
  "next_reply get s =
     (case s of
        [] \<Rightarrow> (Inl (ServiceError ''no reply left''), [])
      | Failed err # rest \<Rightarrow> (Inl err, rest)
      | r # rest \<Rightarrow>
          (case get r of
             Some v \<Rightarrow> (Inr v, rest)
           | None \<Rightarrow> (Inl (ServiceError ''reply of another kind''), rest)))"

definition next_err :: "reply list \<Rightarrow> error option \<times> reply list" where
  "next_err s =
     (case s of
        [] \<Rightarrow> (None, [])
      | Failed err # rest \<Rightarrow> (Some err, rest)
      | r # rest \<Rightarrow> (None, rest))"

definition the_globals :: "reply \<Rightarrow> HNSGlobals option" where
  "the_globals r = (case r of GlobalsReply g \<Rightarrow> Some g | _ \<Rightarrow> None)"

definition the_network :: "reply \<Rightarrow> HNSNetwork option" where
  "the_network r = (case r of NetworkReply n \<Rightarrow> Some n | _ \<Rightarrow> None)"

definition the_endpoint :: "reply \<Rightarrow> HNSEndpoint option" where
  "the_endpoint r = (case r of EndpointReply e \<Rightarrow> Some e | _ \<Rightarrow> None)"

definition the_ids :: "reply \<Rightarrow> string list option" where
  "the_ids r = (case r of IdsReply ids \<Rightarrow> Some ids | _ \<Rightarrow> None)"

definition scripted :: "reply list hns" where
  "scripted = \<lparr>
     GetHNSGlobals = next_reply the_globals,
     GetHNSNetworkByName = (\<lambda>name. next_reply the_network),
     HNSNetworkRequest = (\<lambda>method path request. next_reply the_network),
     GetHNSEndpointByName = (\<lambda>name. next_reply the_endpoint),
     HNSEndpointRequest = (\<lambda>method path request. next_reply the_endpoint),
     HotAttachEndpoint = (\<lambda>containerID endpointID. next_err),
     HotDetachEndpoint = (\<lambda>containerID endpointID. next_err),
     GetNamespaceEndpointIds = (\<lambda>ns. next_reply the_ids),
     AddNamespaceEndpoint = (\<lambda>ns endpointID. next_err),
     RemoveNamespaceEndpoint = (\<lambda>ns endpointID. next_err)\<rparr>"

text \<open>
  The second, \<open>store\<close>, is the service as section 6 of the specification describes it:
  two collections of named records with \<open>create\<close>, \<open>getByName\<close> and \<open>delete\<close>, the
  legacy attachments, the members of each namespace, and a version. A created record
  gets a fresh identifier (the counter \<open>st_next\<close>, written in unary). It gives
  "the networks that exist" a meaning, which a statement about running the builder
  twice needs.
\<close>

record store_state =
  st_version :: HNSVersion
  st_networks :: "HNSNetwork list"
  st_endpoints :: "HNSEndpoint list"
  st_attached :: "(string \<times> string) list"
  st_members :: "(string \<times> string) list"
  st_next :: nat

definition fresh_id :: "store_state \<Rightarrow> string" where
  "fresh_id s = replicate (Suc (st_next s)) CHR ''i''"

definition store_network_request ::
  "string \<Rightarrow> string \<Rightarrow> HNSNetwork option \<Rightarrow> store_state \<Rightarrow> (error + HNSNetwork) \<times> store_state" where
  "store_network_request method path request s =
     (if method = ''POST'' then
        (case request of
           None \<Rightarrow> (Inl (ServiceError ''empty request''), s)
         | Some n \<Rightarrow>
             (let created = n\<lparr>N_Id := fresh_id s\<rparr>
              in (Inr created,
                  s\<lparr>st_networks := st_networks s @ [created], st_next := Suc (st_next s)\<rparr>)))
      else if method = ''DELETE'' then
        (case find (\<lambda>n. N_Id n = path) (st_networks s) of
           None \<Rightarrow> (Inl (ServiceError ''network not found''), s)
         | Some n \<Rightarrow> (Inr n, s\<lparr>st_networks := filter (\<lambda>n. N_Id n \<noteq> path) (st_networks s)\<rparr>))
      else (Inl (ServiceError ''unsupported method''), s))"

definition store_endpoint_request ::
  "string \<Rightarrow> string \<Rightarrow> HNSEndpoint option \<Rightarrow> store_state \<Rightarrow> (error + HNSEndpoint) \<times> store_state" where
  "store_endpoint_request method path request s =
     (if method = ''POST'' then
        (case request of
           None \<Rightarrow> (Inl (ServiceError ''empty request''), s)
         | Some e \<Rightarrow>
             (let created = e\<lparr>E_Id := fresh_id s, E_MacAddress := ''00-15-5d-'' @ fresh_id s\<rparr>
              in (Inr created,
                  s\<lparr>st_endpoints := st_endpoints s @ [created], st_next := Suc (st_next s)\<rparr>)))
      else if method = ''DELETE'' then
        (case find (\<lambda>e. E_Id e = path) (st_endpoints s) of
           None \<Rightarrow> (Inl (ServiceError ''endpoint not found''), s)
         | Some e \<Rightarrow> (Inr e, s\<lparr>st_endpoints := filter (\<lambda>e. E_Id e \<noteq> path) (st_endpoints s)\<rparr>))
      else (Inl (ServiceError ''unsupported method''), s))"

definition store :: "store_state hns" where
  "store = \<lparr>
     GetHNSGlobals = (\<lambda>s. (Inr \<lparr>Version = st_version s\<rparr>, s)),
     GetHNSNetworkByName = (\<lambda>name s.
       case find (\<lambda>n. N_Name n = name) (st_networks s) of
         None \<Rightarrow> (Inl (ServiceError ''network not found''), s)
       | Some n \<Rightarrow> (Inr n, s)),
     HNSNetworkRequest = store_network_request,
     GetHNSEndpointByName = (\<lambda>name s.
       case find (\<lambda>e. E_Name e = name) (st_endpoints s) of
         None \<Rightarrow> (Inl (ServiceError ''endpoint not found''), s)
       | Some e \<Rightarrow> (Inr e, s)),
     HNSEndpointRequest = store_endpoint_request,
     HotAttachEndpoint = (\<lambda>containerID endpointID s.
       (None, s\<lparr>st_attached := st_attached s @ [(containerID, endpointID)]\<rparr>)),
     HotDetachEndpoint = (\<lambda>containerID endpointID s.
       if (containerID, endpointID) \<in> set (st_attached s)
       then (None, s\<lparr>st_attached := removeAll (containerID, endpointID) (st_attached s)\<rparr>)
       else (Some ErrComputeSystemDoesNotExist, s)),
     GetNamespaceEndpointIds = (\<lambda>ns s.
       (Inr (map snd (filter (\<lambda>m. fst m = ns) (st_members s))), s)),
     AddNamespaceEndpoint = (\<lambda>ns endpointID s.
       (None, s\<lparr>st_members := st_members s @ [(ns, endpointID)]\<rparr>)),
     RemoveNamespaceEndpoint = (\<lambda>ns endpointID s.
       (None, s\<lparr>st_members := removeAll (ns, endpointID) (st_members s)\<rparr>))\<rparr>"

text \<open>The networks of a given name that exist in a state of \<open>store\<close>.\<close>

definition networks_named :: "string \<Rightarrow> store_state \<Rightarrow> HNSNetwork list" where
  "networks_named name s = filter (\<lambda>n. N_Name n = name) (st_networks s)"

subsection \<open>Reading a trace\<close>

text \<open>The calls of a trace, and whether a call is a request that creates or deletes
  a network or an endpoint.\<close>

definition calls :: "event list \<Rightarrow> call list" where
  "calls tr = map fst tr"

fun isRequest :: "call \<Rightarrow> bool" where
  "isRequest (CHNSNetworkRequest method path request) = True"
| "isRequest (CHNSEndpointRequest method path request) = True"
| "isRequest c = False"

text \<open>The calls by which an endpoint is attached: the legacy hot-attach, and the two
  calls of \<^verbatim>\<open>attachEndpointV2\<close>.\<close>

fun isAttach :: "call \<Rightarrow> bool" where
  "isAttach (CHotAttachEndpoint containerID endpointID) = True"
| "isAttach (CGetNamespaceEndpointIds ns) = True"
| "isAttach (CAddNamespaceEndpoint ns endpointID) = True"
| "isAttach c = False"

subsection \<open>The specification's words, and sample inputs\<close>

text \<open>"Older than the minimum", as the specification says it: the pair (major, minor) is
  smaller in the lexicographic order.\<close>

definition olderThan :: "HNSVersion \<Rightarrow> HNSVersion \<Rightarrow> bool" where
  "olderThan v m = (Major v < Major m \<or> (Major v = Major m \<and> Minor v < Minor m))"

text \<open>Sample values for running the builder: library functions that return fixed
  strings, with 7.2 for \<^verbatim>\<open>HNSVersion1803\<close>, and a network on one ENI.\<close>

definition sample_ext :: ext where
  "sample_ext = \<lparr>
     HNSVersion1803 = \<lparr>Major = 7, Minor = 2\<rparr>,
     HardwareAddr_String = (\<lambda>a. ''0a:1b:2c:3d:4e:5f''),
     IP_String = (\<lambda>a. ''10.0.0.4''),
     IPNet_String = (\<lambda>n. if Mask n = [255, 255, 255, 0] then ''10.0.0.0/24'' else ''10.0.0.0/16''),
     IPMask_Size = (\<lambda>m. 24),
     ParseMAC = (\<lambda>s. if s = '''' then [] else [0, 0x15, 0x5d, 1, 2, 3]),
     GetSubnetPrefix = (\<lambda>n. n),
     Marshal_policy = (\<lambda>p. None),
     Marshal_network = (\<lambda>n. None),
     Marshal_endpoint = (\<lambda>e. None)\<rparr>"

definition sample_network :: Network where
  "sample_network = \<lparr>
     Name = ''vpc'',
     BridgeNetNSPath = '''',
     SharedENI = \<lparr>linkName = ''Ethernet 2'', macAddress = [0x0a, 0x1b, 0x2c, 0x3d, 0x4e, 0x5f]\<rparr>,
     ENIIPAddresses = [\<lparr>IP = [10, 0, 0, 4], Mask = [255, 255, 255, 0]\<rparr>],
     GatewayIPAddress = [10, 0, 0, 1],
     VPCCIDRs = None,
     DNSServers = [''10.0.0.2''],
     DNSSuffixSearchList = [''example.internal''],
     ServiceCIDR = ''''\<rparr>"

definition sample_endpoint :: "string \<Rightarrow> Endpoint" where
  "sample_endpoint ns = \<lparr>
     ContainerID = ''c1'',
     NetNSName = ns,
     MACAddress = [],
     IPAddresses = [\<lparr>IP = [10, 0, 0, 5], Mask = [255, 255, 255, 0]\<rparr>]\<rparr>"

definition sample_hnsEndpoint :: HNSEndpoint where
  "sample_hnsEndpoint = \<lparr>
     E_Id = ''e-7'',
     E_Name = ''cid-c1'',
     E_VirtualNetworkName = ''vpcbr0a1b2c3d4e5f'',
     E_Policies = [],
     E_MacAddress = ''00-15-5d-01-02-03'',
     E_IPAddress = [10, 0, 0, 5],
     E_DNSSuffix = '''',
     E_DNSServerList = '''',
     E_PrefixLength = 24\<rparr>"

section \<open>Properties\<close>

subsection \<open>Helper lemmas\<close>

lemma index_Cons_0: "index (a # as) 0 = Inr a"
  by (simp add: index_def)

lemma HasPrefix_iff: "HasPrefix s pre \<longleftrightarrow> (\<exists>rest. s = pre @ rest)"
proof
  assume "HasPrefix s pre"
  then have "take (length pre) s = pre" by (simp add: HasPrefix_def)
  then have "s = pre @ drop (length pre) s" by (metis append_take_drop_id)
  then show "\<exists>rest. s = pre @ rest" ..
next
  assume "\<exists>rest. s = pre @ rest"
  then show "HasPrefix s pre" by (auto simp add: HasPrefix_def)
qed

lemma TrimPrefix_append: "TrimPrefix (pre @ rest) pre = rest"
  by (simp add: TrimPrefix_def HasPrefix_def)

subsection \<open>The namespace classifier\<close>

text \<open>
  Claim C3. The namespace classifier is a function of the namespace reference and the
  container identifier alone (two endpoints that agree on both are classified alike),
  and it has exactly three cases: the empty string and \<open>none\<close> give Infra with the
  container identifier; a string that starts with \<open>container:\<close> gives App with the
  rest of the string; every other string gives NamespaceHandle with the string itself.
\<close>

theorem getNamespaceIdentifier_cases:
  "(\<forall>ep' :: Endpoint. NetNSName ep' = NetNSName ep \<and> ContainerID ep' = ContainerID ep \<longrightarrow>
       getNamespaceIdentifier ep' = getNamespaceIdentifier ep)
   \<and> (NetNSName ep = ''none'' \<or> NetNSName ep = '''' \<longrightarrow>
       getNamespaceIdentifier ep = (infraContainerNS, ContainerID ep))
   \<and> (\<forall>rest. NetNSName ep = ''container:'' @ rest \<longrightarrow>
       getNamespaceIdentifier ep = (appContainerNS, rest))
   \<and> (NetNSName ep \<noteq> ''none'' \<and> NetNSName ep \<noteq> '''' \<and>
      (\<forall>rest. NetNSName ep \<noteq> ''container:'' @ rest) \<longrightarrow>
       getNamespaceIdentifier ep = (hcnNamespace, NetNSName ep))"
proof (intro conjI allI impI)
  fix ep' :: Endpoint
  assume "NetNSName ep' = NetNSName ep \<and> ContainerID ep' = ContainerID ep"
  then show "getNamespaceIdentifier ep' = getNamespaceIdentifier ep"
    by (simp add: getNamespaceIdentifier_def)
next
  assume "NetNSName ep = ''none'' \<or> NetNSName ep = ''''"
  then show "getNamespaceIdentifier ep = (infraContainerNS, ContainerID ep)"
    by (auto simp add: getNamespaceIdentifier_def)
next
  fix rest
  assume a: "NetNSName ep = ''container:'' @ rest"
  have "HasPrefix (NetNSName ep) containerPrefix"
    unfolding HasPrefix_iff containerPrefix_def using a by blast
  moreover have "TrimPrefix (NetNSName ep) containerPrefix = rest"
    unfolding containerPrefix_def a by (rule TrimPrefix_append)
  moreover have "NetNSName ep \<noteq> ''none''" "NetNSName ep \<noteq> ''''"
    using a by simp_all
  ultimately show "getNamespaceIdentifier ep = (appContainerNS, rest)"
    by (simp add: getNamespaceIdentifier_def)
next
  assume a: "NetNSName ep \<noteq> ''none'' \<and> NetNSName ep \<noteq> '''' \<and>
    (\<forall>rest. NetNSName ep \<noteq> ''container:'' @ rest)"
  then have "\<not> HasPrefix (NetNSName ep) containerPrefix"
    unfolding HasPrefix_iff containerPrefix_def by blast
  with a show "getNamespaceIdentifier ep = (hcnNamespace, NetNSName ep)"
    by (simp add: getNamespaceIdentifier_def)
qed

theorem getNamespaceIdentifier_cases_witness:
  "getNamespaceIdentifier (sample_endpoint '''') = (infraContainerNS, ''c1'')
   \<and> getNamespaceIdentifier (sample_endpoint ''none'') = (infraContainerNS, ''c1'')
   \<and> getNamespaceIdentifier (sample_endpoint ''container:abc'') = (appContainerNS, ''abc'')
   \<and> getNamespaceIdentifier (sample_endpoint ''ns-123'') = (hcnNamespace, ''ns-123'')
   \<and> getNamespaceIdentifier ((sample_endpoint ''ns-123'')\<lparr>MACAddress := [1, 2, 3, 4, 5, 6]\<rparr>)
       = getNamespaceIdentifier (sample_endpoint ''ns-123'')"
proof -
  note c = getNamespaceIdentifier_cases
  have 1: "getNamespaceIdentifier (sample_endpoint '''') = (infraContainerNS, ''c1'')"
    using c [of "sample_endpoint ''''", THEN conjunct2, THEN conjunct1]
    by (simp add: sample_endpoint_def)
  have 2: "getNamespaceIdentifier (sample_endpoint ''none'') = (infraContainerNS, ''c1'')"
    using c [of "sample_endpoint ''none''", THEN conjunct2, THEN conjunct1]
    by (simp add: sample_endpoint_def)
  have 3: "getNamespaceIdentifier (sample_endpoint ''container:abc'') = (appContainerNS, ''abc'')"
    using c [of "sample_endpoint ''container:abc''", THEN conjunct2, THEN conjunct2,
        THEN conjunct1, THEN spec, of "''abc''"]
    by (simp add: sample_endpoint_def)
  have 4: "getNamespaceIdentifier (sample_endpoint ''ns-123'') = (hcnNamespace, ''ns-123'')"
    using c [of "sample_endpoint ''ns-123''", THEN conjunct2, THEN conjunct2, THEN conjunct2]
    by (simp add: sample_endpoint_def)
  have 5: "getNamespaceIdentifier ((sample_endpoint ''ns-123'')\<lparr>MACAddress := [1, 2, 3, 4, 5, 6]\<rparr>)
       = getNamespaceIdentifier (sample_endpoint ''ns-123'')"
    using c [of "sample_endpoint ''ns-123''", THEN conjunct1, THEN spec,
        of "(sample_endpoint ''ns-123'')\<lparr>MACAddress := [1, 2, 3, 4, 5, 6]\<rparr>"]
    by (simp add: sample_endpoint_def)
  from 1 2 3 4 5 show ?thesis by blast
qed


subsection \<open>The version gate\<close>

text \<open>
  Claim C7. When the service reports a version, \<^verbatim>\<open>checkHNSVersion\<close> compares it
  with the minimum in the lexicographic order of (major, minor): a version with a
  smaller major, or with the same major and a smaller minor, is rejected with the
  error that names the minimum; every other version is accepted, the minimum itself
  among them.
\<close>

theorem checkHNSVersion_lexicographic:
  assumes "GetHNSGlobals svc (fst w) = (Inr g, s')"
  shows "fst (checkHNSVersion x svc w) =
           (if olderThan (Version g) (hnsMinVersion x)
            then Some (ErrHNSTooOld (hnsMinVersion x)) else None)
         \<and> (Version g = hnsMinVersion x \<longrightarrow> fst (checkHNSVersion x svc w) = None)"
  using assms
  by (auto simp add: checkHNSVersion_def issue_def olderThan_def Let_def)

theorem checkHNSVersion_lexicographic_witness:
  "fst (checkHNSVersion sample_ext scripted
          ([GlobalsReply \<lparr>Version = \<lparr>Major = 7, Minor = 2\<rparr>\<rparr>], [])) = None
   \<and> fst (checkHNSVersion sample_ext scripted
          ([GlobalsReply \<lparr>Version = \<lparr>Major = 7, Minor = 1\<rparr>\<rparr>], []))
       = Some (ErrHNSTooOld \<lparr>Major = 7, Minor = 2\<rparr>)
   \<and> fst (checkHNSVersion sample_ext scripted
          ([GlobalsReply \<lparr>Version = \<lparr>Major = 6, Minor = 9\<rparr>\<rparr>], []))
       = Some (ErrHNSTooOld \<lparr>Major = 7, Minor = 2\<rparr>)
   \<and> fst (checkHNSVersion sample_ext scripted
          ([GlobalsReply \<lparr>Version = \<lparr>Major = 8, Minor = 0\<rparr>\<rparr>], [])) = None"
  using checkHNSVersion_lexicographic [of scripted
      "([GlobalsReply \<lparr>Version = \<lparr>Major = 7, Minor = 2\<rparr>\<rparr>], [])"
      "\<lparr>Version = \<lparr>Major = 7, Minor = 2\<rparr>\<rparr>" "[]" sample_ext]
    checkHNSVersion_lexicographic [of scripted
      "([GlobalsReply \<lparr>Version = \<lparr>Major = 7, Minor = 1\<rparr>\<rparr>], [])"
      "\<lparr>Version = \<lparr>Major = 7, Minor = 1\<rparr>\<rparr>" "[]" sample_ext]
    checkHNSVersion_lexicographic [of scripted
      "([GlobalsReply \<lparr>Version = \<lparr>Major = 6, Minor = 9\<rparr>\<rparr>], [])"
      "\<lparr>Version = \<lparr>Major = 6, Minor = 9\<rparr>\<rparr>" "[]" sample_ext]
    checkHNSVersion_lexicographic [of scripted
      "([GlobalsReply \<lparr>Version = \<lparr>Major = 8, Minor = 0\<rparr>\<rparr>], [])"
      "\<lparr>Version = \<lparr>Major = 8, Minor = 0\<rparr>\<rparr>" "[]" sample_ext]
  by (simp add: scripted_def next_reply_def the_globals_def sample_ext_def
      hnsMinVersion_def olderThan_def)


end
